theory Spec2Isabelle
  imports Main "HOL-Library.Word"
begin

unbundle bit_operations_syntax

section \<open>Common types\<close>

type_synonym byte = "8 word"
type_synonym bytes = "byte list"

text \<open>
  Errors returned by the code of the repository carry the arguments of their
  format strings; an error handed back by a library call or by the Sia client is
  opaque to the code and is passed on unchanged.
  \<^item> \<open>NotEnoughData n\<close>: \<^verbatim>\<open>No enough encrypted data (%d bytes) provided\<close>
  \<^item> \<open>NotEncrypted\<close>: \<^verbatim>\<open>The storage doesn't seem to be encrypted\<close>
  \<^item> \<open>UnsupportedVersion v\<close>: \<^verbatim>\<open>Unsupported encryption version %d\<close>
  \<^item> \<open>MACFailure\<close>: \<^verbatim>\<open>Unable to verify MAC\<close>
\<close>

datatype error =
    NotEnoughData nat
  | NotEncrypted
  | UnsupportedVersion byte
  | MACFailure
  | External string

section \<open>The Sia storage backend (duplicacy\_siastorage.go)\<close>

text \<open>
  The fields of \<^verbatim>\<open>api.FileInfo\<close> that the backend reads. \<^verbatim>\<open>Filesize\<close> is a
  \<^verbatim>\<open>uint64\<close>.
\<close>

record FileInfo =
  SiaPath :: string
  Filesize :: "64 word"
  Available :: bool

text \<open>
  \<^verbatim>\<open>storage.client.Get("/renter/files", &rf)\<close> either fails or fills \<^verbatim>\<open>rf.Files\<close>;
  the client is the function from the request path to that outcome.
\<close>

record SIAStorage =
  storageDir :: string
  client_Get_files :: "string \<Rightarrow> error + FileInfo list"

text \<open>
  The loop of \<^verbatim>\<open>GetFileInfo\<close> over \<^verbatim>\<open>rf.Files\<close>: it returns at the first entry
  whose \<^verbatim>\<open>SiaPath\<close> is the wanted one; \<^verbatim>\<open>int64(fi.Filesize)\<close> reinterprets the
  \<^verbatim>\<open>uint64\<close> as a signed number. The result is Go's tuple
  \<^verbatim>\<open>(exist, isDir, size, err)\<close>.
\<close>

fun scan_files :: "string \<Rightarrow> FileInfo list \<Rightarrow> bool \<times> bool \<times> int \<times> error option" where
  "scan_files fPath [] = (False, False, 0, None)"
| "scan_files fPath (fi # fis) =
     (if SiaPath fi = fPath then (True, False, sint (Filesize fi), None)
      else scan_files fPath fis)"

definition GetFileInfo :: "SIAStorage \<Rightarrow> int \<Rightarrow> string \<Rightarrow> bool \<times> bool \<times> int \<times> error option" where
  "GetFileInfo storage threadIndex filePath =
     (case client_Get_files storage ''/renter/files'' of
        Inl err \<Rightarrow> (False, False, 0, Some err)
      | Inr files \<Rightarrow> scan_files (storageDir storage @ ''/'' @ filePath) files)"

definition FindChunk :: "SIAStorage \<Rightarrow> int \<Rightarrow> string \<Rightarrow> bool \<Rightarrow> string \<times> bool \<times> int \<times> error option" where
  "FindChunk storage threadIndex chunkID isFossil =
     (let filePath = ''chunks/'' @ chunkID;
          filePath = (if isFossil then filePath @ ''.fsl'' else filePath)
      in case GetFileInfo storage threadIndex filePath of
           (exist, _, sz, err) \<Rightarrow>
             (if err \<noteq> None then ('''', False, 0, err)
              else (filePath, exist, sz, err)))"

section \<open>Library primitives used by the chunk code\<close>

text \<open>
  The chunk code calls libraries that are not part of the repository: PBKDF2 and
  SHA-512, zbase32, Argon2, Threefish, Skein and zstd. Their results are taken as
  parameters. \<^verbatim>\<open>PERSONALIZATION\<close> is a constant of the repository declared
  outside the files at hand and is a parameter too.
\<close>

text \<open>The fields of \<^verbatim>\<open>argon2.Config\<close> that \<^verbatim>\<open>threefishCTR\<close> sets.\<close>

record argon2_Config =
  HashLength :: nat
  TimeCost :: nat
  MemoryCost :: nat
  Parallelism :: nat

record lib =
  pbkdf2_Key_sha512 :: "bytes \<Rightarrow> bytes \<Rightarrow> nat \<Rightarrow> nat \<Rightarrow> bytes"
  zbase32_EncodeToString :: "bytes \<Rightarrow> string"
  argon2_Hash :: "argon2_Config \<Rightarrow> bytes \<Rightarrow> bytes \<Rightarrow> error + bytes"
  threefish_NewCipher :: "bytes \<Rightarrow> bytes \<Rightarrow> error + (bytes \<Rightarrow> bytes)"
  skein_Sum :: "nat \<Rightarrow> bytes \<Rightarrow> bytes \<Rightarrow> bytes \<Rightarrow> bytes"
  zstd_CompressLevel :: "bytes \<Rightarrow> int \<Rightarrow> error + bytes"
  zstd_Decompress :: "bytes \<Rightarrow> error + bytes"
  PERSONALIZATION :: bytes

text \<open>
  \<^item> \<open>pbkdf2_Key_sha512 password salt iter keyLen\<close> is
    \<^verbatim>\<open>pbkdf2.Key(password, salt, iter, keyLen, sha512.New)\<close>.
  \<^item> \<open>threefish_NewCipher tweak key\<close> is \<^verbatim>\<open>threefish.NewCipher(&tweak, key)\<close>; on
    success it gives the block encryption \<^verbatim>\<open>Encrypt\<close> of the cipher.
  \<^item> \<open>skein_Sum n key personal data\<close> is \<^verbatim>\<open>Sum(nil)\<close> of
    \<^verbatim>\<open>skein.New(n, &skein.Config{Key: key, Personal: personal})\<close> after \<open>data\<close> has
    been written to it.
  \<^item> \<open>zstd_CompressLevel src level\<close> is \<^verbatim>\<open>zstd.CompressLevel(nil, src, level)\<close> and
    \<open>zstd_Decompress src\<close> is \<^verbatim>\<open>zstd.Decompress(nil, src)\<close>.
\<close>

text \<open>Sizes of the \<^verbatim>\<open>threefish\<close> package, in bytes.\<close>

definition BlockSize1024 :: nat where "BlockSize1024 = 128"
definition BlockSize512 :: nat where "BlockSize512 = 64"
definition TweakSize :: nat where "TweakSize = 16"

text \<open>The Go slice expression \<^verbatim>\<open>xs[lo:hi]\<close>, for \<open>lo \<le> hi \<le> length xs\<close>.\<close>

definition slice :: "'a list \<Rightarrow> nat \<Rightarrow> nat \<Rightarrow> 'a list" where
  "slice xs lo hi = take (hi - lo) (drop lo xs)"

subsection \<open>Counter mode (\<^verbatim>\<open>cipher.NewCTR\<close>, \<^verbatim>\<open>XORKeyStream\<close>)\<close>

text \<open>
  The counter is a big-endian number held in a byte slice; incrementing it adds one
  to the last byte and carries towards the first. \<open>inc_rev\<close> works on the
  reversed counter.
\<close>

fun inc_rev :: "bytes \<Rightarrow> bytes" where
  "inc_rev [] = []"
| "inc_rev (b # bs) = (if b + 1 = 0 then 0 # inc_rev bs else (b + 1) # bs)"

definition ctr_inc :: "bytes \<Rightarrow> bytes" where
  "ctr_inc ctr = rev (inc_rev (rev ctr))"

text \<open>The key stream of \<open>n\<close> blocks: the encryptions of the successive counters.\<close>

fun ctr_blocks :: "(bytes \<Rightarrow> bytes) \<Rightarrow> bytes \<Rightarrow> nat \<Rightarrow> bytes" where
  "ctr_blocks E ctr 0 = []"
| "ctr_blocks E ctr (Suc n) = E ctr @ ctr_blocks E (ctr_inc ctr) n"

fun xor_bytes :: "bytes \<Rightarrow> bytes \<Rightarrow> bytes" where
  "xor_bytes (s # src) (k # ks) = (s XOR k) # xor_bytes src ks"
| "xor_bytes src ks = []"

text \<open>
  \<^verbatim>\<open>stream.XORKeyStream(dst, src)\<close> on a fresh stream: every byte of \<open>src\<close> is
  xor-ed with the key stream byte at the same position; as many blocks are
  produced as \<open>src\<close> needs.
\<close>

definition XORKeyStream :: "(bytes \<Rightarrow> bytes) \<Rightarrow> bytes \<Rightarrow> bytes \<Rightarrow> bytes" where
  "XORKeyStream E iv src =
     xor_bytes src (ctr_blocks E iv ((length src + BlockSize1024 - 1) div BlockSize1024))"

section \<open>Chunks\<close>

text \<open>
  Modelled from the spec: \<^verbatim>\<open>Config\<close> is declared outside the files at hand; the
  chunk code reads the hash key, the id key, the maximum chunk size and the
  compression level from it and asks it for keyed hashers. \<open>KeyedHash key data\<close> is
  the digest that a hasher made by \<^verbatim>\<open>NewKeyedHasher(key)\<close> returns from
  \<^verbatim>\<open>Sum(nil)\<close> once \<open>data\<close> has been written to it.
\<close>

record Config =
  HashKey :: bytes
  IDKey :: bytes
  MaximumChunkSize :: nat
  CompressionLevel :: int
  KeyedHash :: "bytes \<Rightarrow> bytes \<Rightarrow> bytes"

text \<open>A \<^verbatim>\<open>hash.Hash\<close> made by \<^verbatim>\<open>NewKeyedHasher\<close>: its key and what was written.\<close>

record Hasher =
  hkey :: bytes
  written :: bytes

definition NewKeyedHasher :: "Config \<Rightarrow> bytes \<Rightarrow> Hasher" where
  "NewKeyedHasher cfg key = \<lparr>hkey = key, written = []\<rparr>"

definition Hasher_Write :: "Hasher \<Rightarrow> bytes \<Rightarrow> Hasher" where
  "Hasher_Write h p = h\<lparr>written := written h @ p\<rparr>"

definition Hasher_Sum :: "Config \<Rightarrow> Hasher \<Rightarrow> bytes" where
  "Hasher_Sum cfg h = KeyedHash cfg (hkey h) (written h)"

text \<open>
  The chunk. \<open>buffer\<close> is the content of the \<^verbatim>\<open>*bytes.Buffer\<close>, \<open>None\<close> for
  the nil pointer; \<open>hasher\<close> is \<open>None\<close> for the nil interface; a nil slice and
  an empty one are both \<open>[]\<close>, as the code only asks for their \<^verbatim>\<open>len\<close>.
\<close>

record Chunk =
  buffer :: "bytes option"
  chunk_size :: nat
  hasher :: "Hasher option"
  chunk_hash :: bytes
  chunk_id :: string
  config :: Config

text \<open>
  The process-wide state: the channel \<^verbatim>\<open>chunkBufferPool\<close> (the buffers queued in
  it, oldest first, and its capacity \<^verbatim>\<open>runtime.NumCPU()*16\<close>) and the flag
  \<^verbatim>\<open>DecryptWithHMACSHA256\<close>.
\<close>

record globals =
  chunkBufferPool :: "bytes list"
  poolCapacity :: nat
  DecryptWithHMACSHA256 :: bool

text \<open>
  The package initialisation: the pool is made empty and \<^verbatim>\<open>init()\<close> reads the
  environment.
\<close>

definition init :: "nat \<Rightarrow> (string \<rightharpoonup> string) \<Rightarrow> globals" where
  "init numCPU env =
     \<lparr>chunkBufferPool = [],
      poolCapacity = numCPU * 16,
      DecryptWithHMACSHA256 =
        (case env ''DUPLICACY_DECRYPT_WITH_HMACSHA256'' of
           Some v \<Rightarrow> v \<noteq> ''0''
         | None \<Rightarrow> False)\<rparr>"

text \<open>
  \<^verbatim>\<open>AllocateChunkBuffer\<close> takes the oldest queued buffer, with whatever it still
  holds, or makes a new empty one. \<^verbatim>\<open>ReleaseChunkBuffer\<close> queues the buffer unless
  the channel is full, in which case the buffer is dropped (and a line is logged).
  A buffer is given by its content: the buffer of a chunk is never one of the
  queued ones, since the code releases a buffer only when the chunk has got
  another one. The calls run one after the other; goroutines that fill or drain
  the pool in between are outside this model.
\<close>

definition AllocateChunkBuffer :: "globals \<Rightarrow> bytes \<times> globals" where
  "AllocateChunkBuffer g =
     (case chunkBufferPool g of
        b # rest \<Rightarrow> (b, g\<lparr>chunkBufferPool := rest\<rparr>)
      | [] \<Rightarrow> ([], g))"

definition ReleaseChunkBuffer :: "globals \<Rightarrow> bytes \<Rightarrow> globals" where
  "ReleaseChunkBuffer g b =
     (if length (chunkBufferPool g) < poolCapacity g
      then g\<lparr>chunkBufferPool := chunkBufferPool g @ [b]\<rparr>
      else g)"

text \<open>
  What holds of a Go channel made with a positive capacity: it never queues more
  than its capacity. \<^verbatim>\<open>runtime.NumCPU()\<close> is at least 1.
\<close>

definition pool_ok :: "globals \<Rightarrow> bool" where
  "pool_ok g \<longleftrightarrow> length (chunkBufferPool g) \<le> poolCapacity g \<and> 0 < poolCapacity g"

text \<open>Magic word to identify a duplicacy format encrypted file, plus a version number.\<close>

definition ENCRYPTION_HEADER :: bytes where
  "ENCRYPTION_HEADER = map of_char ''duplicacy'' @ [0]"

definition CreateChunk :: "globals \<Rightarrow> Config \<Rightarrow> bool \<Rightarrow> Chunk \<times> globals" where
  "CreateChunk g cfg bufferNeeded =
     (if bufferNeeded
      then (case AllocateChunkBuffer g of
              (_, g') \<Rightarrow>
                (\<lparr>buffer = Some [], chunk_size = 0, hasher = None, chunk_hash = [],
                  chunk_id = '''', config = cfg\<rparr>, g'))
      else (\<lparr>buffer = None, chunk_size = 0, hasher = None, chunk_hash = [],
             chunk_id = '''', config = cfg\<rparr>, g))"

definition GetLength :: "Chunk \<Rightarrow> nat" where
  "GetLength chunk =
     (case buffer chunk of Some b \<Rightarrow> length b | None \<Rightarrow> chunk_size chunk)"

definition Reset :: "Chunk \<Rightarrow> bool \<Rightarrow> Chunk" where
  "Reset chunk hashNeeded =
     chunk\<lparr>buffer := (case buffer chunk of Some _ \<Rightarrow> Some [] | None \<Rightarrow> None),
           hasher := (if hashNeeded
                      then Some (NewKeyedHasher (config chunk) (HashKey (config chunk)))
                      else None),
           chunk_hash := [],
           chunk_id := '''',
           chunk_size := 0\<rparr>"

text \<open>\<^verbatim>\<open>Write\<close> returns \<^verbatim>\<open>len(p), nil\<close>; the model returns the length and the chunk.\<close>

definition Write :: "Chunk \<Rightarrow> bytes \<Rightarrow> nat \<times> Chunk" where
  "Write chunk p =
     (let chunk1 = (case buffer chunk of
                      None \<Rightarrow> chunk\<lparr>chunk_size := chunk_size chunk + length p\<rparr>
                    | Some b \<Rightarrow> chunk\<lparr>buffer := Some (b @ p)\<rparr>);
          chunk2 = (case hasher chunk1 of
                      Some h \<Rightarrow> chunk1\<lparr>hasher := Some (Hasher_Write h p)\<rparr>
                    | None \<Rightarrow> chunk1)
      in (length p, chunk2))"

text \<open>
  \<^verbatim>\<open>GetHash\<close> and \<^verbatim>\<open>GetID\<close> call \<^verbatim>\<open>chunk.hasher.Sum\<close> when no hash is
  stored; with a nil hasher that call panics, which is the result \<open>None\<close>.
\<close>

definition GetHash :: "Chunk \<Rightarrow> (bytes \<times> Chunk) option" where
  "GetHash chunk =
     (if length (chunk_hash chunk) = 0
      then (case hasher chunk of
              None \<Rightarrow> None
            | Some h \<Rightarrow>
                (let chunk1 = chunk\<lparr>chunk_hash := Hasher_Sum (config chunk) h\<rparr>
                 in Some (chunk_hash chunk1, chunk1)))
      else Some (chunk_hash chunk, chunk))"

definition GetID :: "lib \<Rightarrow> Chunk \<Rightarrow> (string \<times> Chunk) option" where
  "GetID L chunk =
     (if length (chunk_id chunk) = 0
      then (case (if length (chunk_hash chunk) = 0
                  then (case hasher chunk of
                          None \<Rightarrow> None
                        | Some h \<Rightarrow> Some (chunk\<lparr>chunk_hash := Hasher_Sum (config chunk) h\<rparr>))
                  else Some chunk) of
              None \<Rightarrow> None
            | Some chunk1 \<Rightarrow>
                (let id = pbkdf2_Key_sha512 L (IDKey (config chunk1)) (chunk_hash chunk1) 13 64;
                     chunk2 = chunk1\<lparr>chunk_id := zbase32_EncodeToString L id\<rparr>
                 in Some (chunk_id chunk2, chunk2)))
      else Some (chunk_id chunk, chunk))"

subsection \<open>\<^verbatim>\<open>threefishCTR\<close>\<close>

text \<open>
  The Argon2 output \<open>raw\<close> is cut into the cipher key, the tweak, the MAC key
  and the initial counter. A slice expression beyond the end of \<open>raw\<close> panics, and
  \<^verbatim>\<open>cipher.NewCTR\<close> panics unless the counter has the block size of the cipher:
  these are the result \<open>None\<close>. Otherwise the result is the error of the library
  call that failed, or the pair \<^verbatim>\<open>(dst, skienMac)\<close>.
\<close>

definition threefishCTR ::
    "lib \<Rightarrow> bytes \<Rightarrow> bytes \<Rightarrow> bytes \<Rightarrow> bool \<Rightarrow> (error + bytes \<times> bytes) option" where
  "threefishCTR L encryptionKey salt src enc =
     (let cfg = \<lparr>HashLength = BlockSize1024 + TweakSize + BlockSize512 + BlockSize1024,
                 TimeCost = 4, MemoryCost = 2 ^ 15, Parallelism = 2\<rparr>
      in case argon2_Hash L cfg encryptionKey salt of
           Inl err \<Rightarrow> Some (Inl err)
         | Inr raw \<Rightarrow>
             if length raw < BlockSize1024 + TweakSize then None
             else
               (let t3fTweak = slice raw BlockSize1024 (BlockSize1024 + TweakSize)
                in case threefish_NewCipher L t3fTweak (slice raw 0 BlockSize1024) of
                     Inl err \<Rightarrow> Some (Inl err)
                   | Inr t3f \<Rightarrow>
                       if length raw < BlockSize1024 + TweakSize + BlockSize512 then None
                       else
                         (let iv = drop (BlockSize1024 + TweakSize + BlockSize512) raw
                          in if length iv \<noteq> BlockSize1024 then None
                             else
                               (let dst = XORKeyStream t3f iv src;
                                    skeinMacKey = slice raw (BlockSize1024 + TweakSize)
                                                    (BlockSize1024 + TweakSize + BlockSize512);
                                    skienMac = skein_Sum L 64 skeinMacKey (PERSONALIZATION L)
                                                 (ENCRYPTION_HEADER @ salt @ (if enc then dst else src))
                                in Some (Inr (dst, skienMac))))))"

subsection \<open>\<^verbatim>\<open>Encrypt\<close> and \<^verbatim>\<open>Decrypt\<close>\<close>

text \<open>
  \<^verbatim>\<open>rand.Read(salt)\<close> fills the 32 bytes of \<open>salt\<close> from the entropy of the
  system, or fails: the outcome \<open>rnd\<close> is an input of \<open>Encrypt\<close>, the bytes as a
  function of their position. The string \<^verbatim>\<open>derivationKey\<close> is given by its bytes.

  The result \<open>None\<close> is a panic. Otherwise the result holds the returned
  \<^verbatim>\<open>err\<close>, the chunk and the global state after the deferred
  \<^verbatim>\<open>ReleaseChunkBuffer(encryptedBuffer)\<close> has run; that call releases what the
  variable \<^verbatim>\<open>encryptedBuffer\<close> holds at the return, which after the swap is the
  former buffer of the chunk.
\<close>

type_synonym entropy = "error + (nat \<Rightarrow> byte)"

definition Encrypt ::
    "lib \<Rightarrow> entropy \<Rightarrow> globals \<Rightarrow> Chunk \<Rightarrow> bytes \<Rightarrow> bytes \<Rightarrow> (error option \<times> Chunk \<times> globals) option" where
  "Encrypt L rnd g chunk encryptionKey derivationKey =
     (case AllocateChunkBuffer g of
        (_, g1) \<Rightarrow>
          (case (if length encryptionKey > 0
                 then (let key = (if length derivationKey > 0
                                  then pbkdf2_Key_sha512 L encryptionKey derivationKey 100 128
                                  else encryptionKey)
                       in case rnd of
                            Inl err \<Rightarrow> Inl (err, ENCRYPTION_HEADER)
                          | Inr r \<Rightarrow>
                              (let salt = map r [0..<32]
                               in Inr (key, salt, ENCRYPTION_HEADER @ salt)))
                 else Inr ([], [], [])) of
             Inl (err, encryptedBuffer) \<Rightarrow>
               Some (Some err, chunk, ReleaseChunkBuffer g1 encryptedBuffer)
           | Inr (key, salt, encryptedBuffer) \<Rightarrow>
               (case buffer chunk of
                  None \<Rightarrow> None
                | Some plain \<Rightarrow>
                    (case zstd_CompressLevel L plain (CompressionLevel (config chunk)) of
                       Inl err \<Rightarrow> Some (Some err, chunk, ReleaseChunkBuffer g1 encryptedBuffer)
                     | Inr compressed \<Rightarrow>
                         if length encryptionKey = 0
                         then Some (None, chunk\<lparr>buffer := Some (encryptedBuffer @ compressed)\<rparr>,
                                    ReleaseChunkBuffer g1 plain)
                         else
                           (case threefishCTR L key salt compressed True of
                              None \<Rightarrow> None
                            | Some (Inl err) \<Rightarrow>
                                Some (Some err, chunk, ReleaseChunkBuffer g1 encryptedBuffer)
                            | Some (Inr (encrypted, skeinMac)) \<Rightarrow>
                                Some (None,
                                      chunk\<lparr>buffer := Some (encryptedBuffer @ skeinMac @ encrypted)\<rparr>,
                                      ReleaseChunkBuffer g1 plain))))))"

text \<open>
  \<^verbatim>\<open>Decrypt\<close> swaps the buffers first: the chunk gets the fresh, reset buffer and
  \<^verbatim>\<open>encryptedBuffer\<close> the one that came in. With a nil buffer in the chunk the
  first \<^verbatim>\<open>encryptedBuffer.Bytes()\<close> panics.
\<close>

definition Decrypt ::
    "lib \<Rightarrow> globals \<Rightarrow> Chunk \<Rightarrow> bytes \<Rightarrow> bytes \<Rightarrow> (error option \<times> Chunk \<times> globals) option" where
  "Decrypt L g chunk encryptionKey derivationKey =
     (case AllocateChunkBuffer g of
        (_, g1) \<Rightarrow>
          (case buffer chunk of
             None \<Rightarrow> None
           | Some encryptedBuffer \<Rightarrow>
               (let chunk1 = chunk\<lparr>buffer := Some []\<rparr>;
                    g2 = ReleaseChunkBuffer g1 encryptedBuffer;
                    install = (\<lambda>decompressed.
                       chunk1\<lparr>buffer := Some decompressed,
                              hasher := Some (Hasher_Write
                                               (NewKeyedHasher (config chunk1) (HashKey (config chunk1)))
                                               decompressed),
                              chunk_hash := []\<rparr>)
                in if length encryptionKey > 0
                   then
                     (let key = (if length derivationKey > 0
                                 then pbkdf2_Key_sha512 L encryptionKey derivationKey 100 128
                                 else encryptionKey);
                          headerLength = length ENCRYPTION_HEADER;
                          offset = headerLength + 32 + BlockSize512
                      in if length encryptedBuffer < offset
                         then Some (Some (NotEnoughData (length encryptedBuffer)), chunk1, g2)
                         else if take (headerLength - 1) encryptedBuffer
                                   \<noteq> take (headerLength - 1) ENCRYPTION_HEADER
                         then Some (Some NotEncrypted, chunk1, g2)
                         else if encryptedBuffer ! (headerLength - 1) \<noteq> 0
                         then Some (Some (UnsupportedVersion (encryptedBuffer ! (headerLength - 1))),
                                    chunk1, g2)
                         else
                           (let salt = slice encryptedBuffer headerLength (headerLength + 32);
                                chunkSkeinMac = slice encryptedBuffer (headerLength + 32) offset
                            in case threefishCTR L key salt (drop offset encryptedBuffer) False of
                                 None \<Rightarrow> None
                               | Some (Inl err) \<Rightarrow> Some (Some err, chunk1, g2)
                               | Some (Inr (decrypted, skeinMac)) \<Rightarrow>
                                   if chunkSkeinMac \<noteq> skeinMac
                                   then Some (Some MACFailure, chunk1, g2)
                                   else
                                     (case zstd_Decompress L decrypted of
                                        Inl err \<Rightarrow> Some (Some err, chunk1, g2)
                                      | Inr decompressed \<Rightarrow> Some (None, install decompressed, g2))))
                   else
                     (case zstd_Decompress L encryptedBuffer of
                        Inl err \<Rightarrow> Some (Some err, chunk1, g2)
                      | Inr decompressed \<Rightarrow> Some (None, install decompressed, g2)))))"

text \<open>
  \<^verbatim>\<open>VerifyID\<close> logs an error when the id computed from the buffer is not the one
  \<^verbatim>\<open>GetID\<close> returns; the model returns whether the two agree, and the chunk.
\<close>

definition VerifyID :: "lib \<Rightarrow> Chunk \<Rightarrow> (bool \<times> Chunk) option" where
  "VerifyID L chunk =
     (case buffer chunk of
        None \<Rightarrow> None
      | Some b \<Rightarrow>
          (let hasher = Hasher_Write (NewKeyedHasher (config chunk) (HashKey (config chunk))) b;
               hash = Hasher_Sum (config chunk) hasher;
               id = pbkdf2_Key_sha512 L (IDKey (config chunk)) hash 13 64;
               chunkID = zbase32_EncodeToString L id
           in case GetID L chunk of
                None \<Rightarrow> None
              | Some (cid, chunk1) \<Rightarrow> Some (chunkID = cid, chunk1)))"

section \<open>What the chunk code expects of the libraries\<close>

text \<open>
  Three facts about the libraries that the envelope relies on: zstd decompresses
  what it compressed, at every level; the block encryption of a Threefish-1024
  cipher turns a block of 128 bytes into a block of 128 bytes; a Skein hasher made
  for \<open>n\<close> bytes of output returns \<open>n\<close> bytes.
\<close>

definition zstd_inverse :: "lib \<Rightarrow> bool" where
  "zstd_inverse L \<longleftrightarrow>
     (\<forall>src level z. zstd_CompressLevel L src level = Inr z \<longrightarrow> zstd_Decompress L z = Inr src)"

definition threefish_block_sized :: "lib \<Rightarrow> bool" where
  "threefish_block_sized L \<longleftrightarrow>
     (\<forall>tweak key E x. threefish_NewCipher L tweak key = Inr E \<and> length x = BlockSize1024
        \<longrightarrow> length (E x) = BlockSize1024)"

definition skein_sized :: "lib \<Rightarrow> bool" where
  "skein_sized L \<longleftrightarrow> (\<forall>n key personal d. length (skein_Sum L n key personal d) = n)"

section \<open>Concrete inputs\<close>

text \<open>
  A Sia renter that holds one chunk and one snapshot revision under the storage
  directory \<^verbatim>\<open>backup\<close>.
\<close>

definition sia_example :: SIAStorage where
  "sia_example =
     \<lparr>storageDir = ''backup'',
      client_Get_files = (\<lambda>req.
        if req = ''/renter/files''
        then Inr [\<lparr>SiaPath = ''backup/chunks/abc'', Filesize = 7, Available = True\<rparr>,
                  \<lparr>SiaPath = ''backup/snapshots/host/1'', Filesize = 5, Available = True\<rparr>]
        else Inl (External ''unknown request''))\<rparr>"

text \<open>
  A stand-in for the libraries, to run the code on concrete inputs. It has the
  shapes of the real ones (the sizes of the outputs, decompression undoing
  compression) and none of their strength.
\<close>

definition example_lib :: lib where
  "example_lib =
     \<lparr>pbkdf2_Key_sha512 = (\<lambda>password salt iter keyLen. take keyLen (salt @ password @ replicate keyLen 0)),
      zbase32_EncodeToString = map (\<lambda>b. if b = 0 then CHR ''y'' else CHR ''b''),
      argon2_Hash = (\<lambda>cfg key salt. Inr (take (HashLength cfg) (key @ salt @ replicate (HashLength cfg) 0))),
      threefish_NewCipher = (\<lambda>tweak key. Inr (map (\<lambda>b. b + 1))),
      skein_Sum = (\<lambda>n key personal d. take n (d @ replicate n 0)),
      zstd_CompressLevel = (\<lambda>src level. Inr (0x28 # src)),
      zstd_Decompress = (\<lambda>z. case z of
                                [] \<Rightarrow> Inl (External ''zstd: no frame'')
                              | b # rest \<Rightarrow> if b = 0x28 then Inr rest
                                            else Inl (External ''zstd: unknown frame'')),
      PERSONALIZATION = []\<rparr>"

definition example_config :: Config where
  "example_config =
     \<lparr>HashKey = [1], IDKey = [2], MaximumChunkSize = 16, CompressionLevel = 3,
      KeyedHash = (\<lambda>key d. key @ d)\<rparr>"

definition example_chunk :: Chunk where
  "example_chunk =
     \<lparr>buffer = Some [1, 2, 3], chunk_size = 0, hasher = None, chunk_hash = [9],
      chunk_id = '''', config = example_config\<rparr>"

definition example_rnd :: entropy where
  "example_rnd = Inr (\<lambda>i. of_nat i)"

definition example_globals :: globals where
  "example_globals = init 1 Map.empty"

text \<open>Two envelopes of the minimal length: one without the magic word, one of version 1.\<close>

definition envelope_bad_magic :: bytes where
  "envelope_bad_magic = replicate 106 0"

definition envelope_bad_version :: bytes where
  "envelope_bad_version = map of_char ''duplicacy'' @ [1] @ replicate 96 0"

text \<open>
  A run through the operations of a chunk: \<^verbatim>\<open>Reset(true)\<close>, \<^verbatim>\<open>Write\<close> of the
  byte 1, \<^verbatim>\<open>GetID\<close>, \<^verbatim>\<open>Write\<close> of the byte 2, \<^verbatim>\<open>Encrypt\<close> and \<^verbatim>\<open>Decrypt\<close>
  without a key, \<^verbatim>\<open>GetHash\<close>. The result is the chunk after the run, if no step
  failed.
\<close>

definition stale_id_run :: "Chunk option" where
  "stale_id_run =
     (case CreateChunk example_globals example_config True of
        (c0, g1) \<Rightarrow>
          (case GetID example_lib (snd (Write (Reset c0 True) [1])) of
             None \<Rightarrow> None
           | Some (_, c1) \<Rightarrow>
               (case Encrypt example_lib (Inl (External ''no entropy'')) g1 (snd (Write c1 [2])) [] [] of
                  Some (None, c2, g2) \<Rightarrow>
                    (case Decrypt example_lib g2 c2 [] [] of
                       Some (None, c3, g3) \<Rightarrow> map_option snd (GetHash c3)
                     | _ \<Rightarrow> None)
                | _ \<Rightarrow> None)))"

section \<open>Properties of the Sia storage backend\<close>

lemma scan_files_isDir: "\<not> fst (snd (scan_files p fs))"
  by (induction fs) auto

lemma scan_files_err: "snd (snd (snd (scan_files p fs))) = None"
  by (induction fs) auto

lemma scan_files_absent:
  "\<forall>fi \<in> set fs. SiaPath fi \<noteq> p \<Longrightarrow> scan_files p fs = (False, False, 0, None)"
  by (induction fs) auto

lemma GetFileInfo_error_shape:
  "GetFileInfo storage t p = (exist, isDir, sz, Some e) \<Longrightarrow> \<not> exist \<and> sz = 0"
proof (cases "client_Get_files storage ''/renter/files''")
  case (Inl err)
  assume "GetFileInfo storage t p = (exist, isDir, sz, Some e)"
  with Inl show ?thesis by (simp add: GetFileInfo_def)
next
  case (Inr files)
  assume "GetFileInfo storage t p = (exist, isDir, sz, Some e)"
  with Inr scan_files_err [of "storageDir storage @ ''/'' @ p" files]
  show ?thesis by (simp add: GetFileInfo_def)
qed

text \<open>
  Claim C8. For every chunk id and fossil flag, \<^verbatim>\<open>FindChunk\<close> asks \<^verbatim>\<open>GetFileInfo\<close>
  about the path \<^verbatim>\<open>"chunks/" + id\<close>, with \<^verbatim>\<open>".fsl"\<close> appended for a fossil. It
  returns the existence and the size that \<^verbatim>\<open>GetFileInfo\<close> reports, and the error of
  \<^verbatim>\<open>GetFileInfo\<close>, so it fails exactly when \<^verbatim>\<open>GetFileInfo\<close> does; when there is no
  error the returned path is that path (beside an error, the path is empty).
\<close>

theorem FindChunk_wraps_GetFileInfo:
  "(case GetFileInfo storage t (''chunks/'' @ chunkID @ (if isFossil then ''.fsl'' else '''')) of
      (exist, isDir, sz, err) \<Rightarrow>
        FindChunk storage t chunkID isFossil =
          ((if err = None then ''chunks/'' @ chunkID @ (if isFossil then ''.fsl'' else '''') else ''''),
           exist, sz, err))"
proof -
  let ?p = "''chunks/'' @ chunkID @ (if isFossil then ''.fsl'' else '''')"
  obtain exist isDir sz err where r: "GetFileInfo storage t ?p = (exist, isDir, sz, err)"
    by (cases "GetFileInfo storage t ?p") auto
  show ?thesis
  proof (cases err)
    case None
    with r show ?thesis by (auto simp: FindChunk_def Let_def)
  next
    case (Some e)
    with r GetFileInfo_error_shape [of storage t ?p exist isDir sz e]
    show ?thesis by (auto simp: FindChunk_def Let_def)
  qed
qed

lemma sia_example_abc: "GetFileInfo sia_example 0 ''chunks/abc'' = (True, False, 7, None)"
  by (simp add: GetFileInfo_def sia_example_def)

theorem FindChunk_wraps_GetFileInfo_witness:
  "FindChunk sia_example 0 ''abc'' False = (''chunks/abc'', True, 7, None)"
  using FindChunk_wraps_GetFileInfo [of sia_example 0 "''abc''" False] sia_example_abc
  by simp

text \<open>
  Claim C10. \<^verbatim>\<open>GetFileInfo\<close> never reports a directory: \<^verbatim>\<open>isDir\<close> is false for
  every path. When the renter lists no file whose \<^verbatim>\<open>SiaPath\<close> is
  \<^verbatim>\<open>storageDir + "/" + path\<close>, the result is \<^verbatim>\<open>exist = false\<close>, \<^verbatim>\<open>size = 0\<close> and no
  error; so \<^verbatim>\<open>FindChunk\<close> reports a missing chunk as absent and not as an error.
\<close>

theorem GetFileInfo_never_directory:
  "\<not> fst (snd (GetFileInfo storage t filePath)) \<and>
   (\<forall>files. client_Get_files storage ''/renter/files'' = Inr files \<and>
        (\<forall>fi \<in> set files. SiaPath fi \<noteq> storageDir storage @ ''/'' @ filePath)
      \<longrightarrow> GetFileInfo storage t filePath = (False, False, 0, None)) \<and>
   (\<forall>files. client_Get_files storage ''/renter/files'' = Inr files \<and>
        (\<forall>fi \<in> set files. SiaPath fi \<noteq>
            storageDir storage @ ''/'' @ ''chunks/'' @ chunkID @ (if isFossil then ''.fsl'' else ''''))
      \<longrightarrow> FindChunk storage t chunkID isFossil =
            (''chunks/'' @ chunkID @ (if isFossil then ''.fsl'' else ''''), False, 0, None))"
proof (intro conjI allI impI)
  show "\<not> fst (snd (GetFileInfo storage t filePath))"
    using scan_files_isDir by (simp add: GetFileInfo_def split: sum.splits)
next
  fix files
  assume "client_Get_files storage ''/renter/files'' = Inr files \<and>
        (\<forall>fi \<in> set files. SiaPath fi \<noteq> storageDir storage @ ''/'' @ filePath)"
  then show "GetFileInfo storage t filePath = (False, False, 0, None)"
    by (simp add: GetFileInfo_def scan_files_absent)
next
  fix files
  assume "client_Get_files storage ''/renter/files'' = Inr files \<and>
        (\<forall>fi \<in> set files. SiaPath fi \<noteq>
            storageDir storage @ ''/'' @ ''chunks/'' @ chunkID @ (if isFossil then ''.fsl'' else ''''))"
  then have "GetFileInfo storage t (''chunks/'' @ chunkID @ (if isFossil then ''.fsl'' else ''''))
               = (False, False, 0, None)"
    by (simp add: GetFileInfo_def scan_files_absent)
  then show "FindChunk storage t chunkID isFossil =
            (''chunks/'' @ chunkID @ (if isFossil then ''.fsl'' else ''''), False, 0, None)"
    by (auto simp: FindChunk_def Let_def)
qed

lemma sia_example_files:
  "client_Get_files sia_example ''/renter/files'' =
     Inr [\<lparr>SiaPath = ''backup/chunks/abc'', Filesize = 7, Available = True\<rparr>,
          \<lparr>SiaPath = ''backup/snapshots/host/1'', Filesize = 5, Available = True\<rparr>]"
  by (simp add: sia_example_def)

theorem GetFileInfo_never_directory_witness:
  "\<not> fst (snd (GetFileInfo sia_example 0 ''chunks/abc.fsl'')) \<and>
   GetFileInfo sia_example 0 ''chunks/abc.fsl'' = (False, False, 0, None) \<and>
   FindChunk sia_example 0 ''abc'' True = (''chunks/abc.fsl'', False, 0, None)"
proof -
  have absent: "\<forall>fi \<in> set [\<lparr>SiaPath = ''backup/chunks/abc'', Filesize = 7, Available = True\<rparr>,
          \<lparr>SiaPath = ''backup/snapshots/host/1'', Filesize = 5, Available = True\<rparr>].
      SiaPath fi \<noteq> storageDir sia_example @ ''/'' @ ''chunks/abc.fsl''"
    by (simp add: sia_example_def)
  have absent': "\<forall>fi \<in> set [\<lparr>SiaPath = ''backup/chunks/abc'', Filesize = 7, Available = True\<rparr>,
          \<lparr>SiaPath = ''backup/snapshots/host/1'', Filesize = 5, Available = True\<rparr>].
      SiaPath fi \<noteq> storageDir sia_example @ ''/'' @ ''chunks/'' @ ''abc'' @ (if True then ''.fsl'' else '''')"
    by (simp add: sia_example_def)
  from GetFileInfo_never_directory [of sia_example 0 "''chunks/abc.fsl''" "''abc''" True]
    sia_example_files absent absent'
  show ?thesis by simp
qed

section \<open>Counter mode is its own inverse\<close>

lemma length_xor_bytes: "length (xor_bytes src ks) = min (length src) (length ks)"
  by (induction src ks rule: xor_bytes.induct) auto

lemma xor_bytes_involution:
  "length src \<le> length ks \<Longrightarrow> xor_bytes (xor_bytes src ks) ks = src"
  by (induction src ks rule: xor_bytes.induct) (simp_all add: xor.assoc)

lemma length_inc_rev: "length (inc_rev bs) = length bs"
  by (induction bs) auto

lemma length_ctr_inc: "length (ctr_inc ctr) = length ctr"
  by (simp add: ctr_inc_def length_inc_rev)

lemma length_ctr_blocks:
  assumes "\<And>x. length x = b \<Longrightarrow> length (E x) = b" and "length ctr = b"
  shows "length (ctr_blocks E ctr n) = b * n"
  using assms(2)
proof (induction n arbitrary: ctr)
  case 0
  then show ?case by simp
next
  case (Suc n)
  have "length (E ctr) = b" using Suc.prems by (rule assms(1))
  moreover have "length (ctr_blocks E (ctr_inc ctr) n) = b * n"
    using Suc.prems by (intro Suc.IH) (simp add: length_ctr_inc)
  ultimately show ?case by simp
qed

lemma blocks_cover: "(n::nat) \<le> 128 * ((n + 128 - 1) div 128)"
proof -
  have "(n + 127) mod 128 < 128" by simp
  moreover have "128 * ((n + 127) div 128) + (n + 127) mod 128 = n + 127"
    by (rule mult_div_mod_eq)
  ultimately have "n \<le> 128 * ((n + 127) div 128)" by linarith
  then show ?thesis by simp
qed

lemma keystream_covers:
  assumes "\<And>x. length x = BlockSize1024 \<Longrightarrow> length (E x) = BlockSize1024"
    and "length iv = BlockSize1024"
  shows "length src \<le> length (ctr_blocks E iv ((length src + BlockSize1024 - 1) div BlockSize1024))"
proof -
  have "length (ctr_blocks E iv ((length src + BlockSize1024 - 1) div BlockSize1024))
          = BlockSize1024 * ((length src + BlockSize1024 - 1) div BlockSize1024)"
    using assms by (rule length_ctr_blocks)
  moreover have "length src \<le> 128 * ((length src + 128 - 1) div 128)"
    by (rule blocks_cover)
  ultimately show ?thesis by (simp add: BlockSize1024_def)
qed

lemma length_XORKeyStream:
  assumes "\<And>x. length x = BlockSize1024 \<Longrightarrow> length (E x) = BlockSize1024"
    and "length iv = BlockSize1024"
  shows "length (XORKeyStream E iv src) = length src"
  using keystream_covers [OF assms, where src=src]
  by (simp add: XORKeyStream_def length_xor_bytes)

lemma XORKeyStream_involution:
  assumes "\<And>x. length x = BlockSize1024 \<Longrightarrow> length (E x) = BlockSize1024"
    and "length iv = BlockSize1024"
  shows "XORKeyStream E iv (XORKeyStream E iv src) = src"
proof -
  have len: "length (XORKeyStream E iv src) = length src"
    using assms by (rule length_XORKeyStream)
  have "XORKeyStream E iv (XORKeyStream E iv src)
          = xor_bytes (xor_bytes src (ctr_blocks E iv ((length src + BlockSize1024 - 1) div BlockSize1024)))
              (ctr_blocks E iv ((length src + BlockSize1024 - 1) div BlockSize1024))"
    unfolding XORKeyStream_def [of E iv "XORKeyStream E iv src"] len
    by (simp add: XORKeyStream_def)
  also have "\<dots> = src"
    using keystream_covers [OF assms, where src=src] by (rule xor_bytes_involution)
  finally show ?thesis .
qed

section \<open>The steps of \<^verbatim>\<open>threefishCTR\<close>, \<^verbatim>\<open>Encrypt\<close> and \<^verbatim>\<open>Decrypt\<close>\<close>

lemma threefishCTR_unfold:
  "threefishCTR L key salt src enc =
     (case argon2_Hash L \<lparr>HashLength = 336, TimeCost = 4, MemoryCost = 32768, Parallelism = 2\<rparr> key salt of
        Inl err \<Rightarrow> Some (Inl err)
      | Inr raw \<Rightarrow>
          if length raw < 144 then None
          else (case threefish_NewCipher L (slice raw 128 144) (slice raw 0 128) of
                  Inl err \<Rightarrow> Some (Inl err)
                | Inr E \<Rightarrow>
                    if length raw \<noteq> 336 then None
                    else Some (Inr (XORKeyStream E (drop 208 raw) src,
                                    skein_Sum L 64 (slice raw 144 208) (PERSONALIZATION L)
                                      (ENCRYPTION_HEADER @ salt @
                                         (if enc then XORKeyStream E (drop 208 raw) src else src))))))"
  by (auto simp: threefishCTR_def Let_def BlockSize1024_def BlockSize512_def TweakSize_def
        split: sum.split)

lemma Decrypt_nonempty_unfold:
  assumes "encryptionKey \<noteq> []" and "buffer chunk = Some env"
  shows "Decrypt L g chunk encryptionKey derivationKey =
     (let chunk1 = chunk\<lparr>buffer := Some []\<rparr>;
          g2 = ReleaseChunkBuffer (snd (AllocateChunkBuffer g)) env;
          key = (if derivationKey \<noteq> []
                 then pbkdf2_Key_sha512 L encryptionKey derivationKey 100 128
                 else encryptionKey)
      in if length env < 106 then Some (Some (NotEnoughData (length env)), chunk1, g2)
         else if take 9 env \<noteq> take 9 ENCRYPTION_HEADER then Some (Some NotEncrypted, chunk1, g2)
         else if env ! 9 \<noteq> 0 then Some (Some (UnsupportedVersion (env ! 9)), chunk1, g2)
         else (case threefishCTR L key (slice env 10 42) (drop 106 env) False of
                 None \<Rightarrow> None
               | Some (Inl err) \<Rightarrow> Some (Some err, chunk1, g2)
               | Some (Inr (decrypted, skeinMac)) \<Rightarrow>
                   if slice env 42 106 \<noteq> skeinMac then Some (Some MACFailure, chunk1, g2)
                   else (case zstd_Decompress L decrypted of
                           Inl err \<Rightarrow> Some (Some err, chunk1, g2)
                         | Inr decompressed \<Rightarrow>
                             Some (None,
                                   chunk\<lparr>buffer := Some decompressed,
                                         hasher := Some \<lparr>hkey = HashKey (config chunk),
                                                          written = decompressed\<rparr>,
                                         chunk_hash := []\<rparr>,
                                   g2))))"
proof -
  have hl: "length ENCRYPTION_HEADER = 10" by (simp add: ENCRYPTION_HEADER_def)
  obtain b g1 where a: "AllocateChunkBuffer g = (b, g1)"
    by (cases "AllocateChunkBuffer g") auto
  show ?thesis
    using assms
    by (simp add: Decrypt_def Let_def a hl BlockSize512_def NewKeyedHasher_def Hasher_Write_def
        split: option.split sum.split prod.split)
qed

lemma Decrypt_empty_unfold:
  assumes "buffer chunk = Some env"
  shows "Decrypt L g chunk [] derivationKey =
     (case zstd_Decompress L env of
        Inl err \<Rightarrow> Some (Some err, chunk\<lparr>buffer := Some []\<rparr>,
                          ReleaseChunkBuffer (snd (AllocateChunkBuffer g)) env)
      | Inr decompressed \<Rightarrow>
          Some (None,
                chunk\<lparr>buffer := Some decompressed,
                      hasher := Some \<lparr>hkey = HashKey (config chunk), written = decompressed\<rparr>,
                      chunk_hash := []\<rparr>,
                ReleaseChunkBuffer (snd (AllocateChunkBuffer g)) env))"
proof -
  obtain b g1 where a: "AllocateChunkBuffer g = (b, g1)"
    by (cases "AllocateChunkBuffer g") auto
  show ?thesis
    using assms
    by (simp add: Decrypt_def Let_def a NewKeyedHasher_def Hasher_Write_def split: sum.split)
qed

lemma Encrypt_empty_unfold:
  assumes "buffer chunk = Some plain"
  shows "Encrypt L rnd g chunk [] derivationKey =
     (case zstd_CompressLevel L plain (CompressionLevel (config chunk)) of
        Inl err \<Rightarrow> Some (Some err, chunk, ReleaseChunkBuffer (snd (AllocateChunkBuffer g)) [])
      | Inr compressed \<Rightarrow>
          Some (None, chunk\<lparr>buffer := Some compressed\<rparr>,
                ReleaseChunkBuffer (snd (AllocateChunkBuffer g)) plain))"
proof -
  obtain b g1 where a: "AllocateChunkBuffer g = (b, g1)"
    by (cases "AllocateChunkBuffer g") auto
  show ?thesis
    using assms
    by (simp add: Encrypt_def Let_def a split: sum.split)
qed

lemma Encrypt_nonempty_unfold:
  assumes "encryptionKey \<noteq> []" and "buffer chunk = Some plain"
  shows "Encrypt L rnd g chunk encryptionKey derivationKey =
     (let g1 = snd (AllocateChunkBuffer g);
          key = (if derivationKey \<noteq> []
                 then pbkdf2_Key_sha512 L encryptionKey derivationKey 100 128
                 else encryptionKey)
      in case rnd of
           Inl err \<Rightarrow> Some (Some err, chunk, ReleaseChunkBuffer g1 ENCRYPTION_HEADER)
         | Inr r \<Rightarrow>
             (case zstd_CompressLevel L plain (CompressionLevel (config chunk)) of
                Inl err \<Rightarrow>
                  Some (Some err, chunk, ReleaseChunkBuffer g1 (ENCRYPTION_HEADER @ map r [0..<32]))
              | Inr compressed \<Rightarrow>
                  (case threefishCTR L key (map r [0..<32]) compressed True of
                     None \<Rightarrow> None
                   | Some (Inl err) \<Rightarrow>
                       Some (Some err, chunk,
                             ReleaseChunkBuffer g1 (ENCRYPTION_HEADER @ map r [0..<32]))
                   | Some (Inr (encrypted, skeinMac)) \<Rightarrow>
                       Some (None,
                             chunk\<lparr>buffer := Some (ENCRYPTION_HEADER @ map r [0..<32] @ skeinMac @ encrypted)\<rparr>,
                             ReleaseChunkBuffer g1 plain))))"
proof -
  obtain b g1 where a: "AllocateChunkBuffer g = (b, g1)"
    by (cases "AllocateChunkBuffer g") auto
  show ?thesis
    using assms
    by (simp add: Encrypt_def Let_def a split: sum.split option.split prod.split)
qed

section \<open>\<^verbatim>\<open>Decrypt\<close>: the flag, the pool and the checks\<close>

lemma Allocate_flag:
  "AllocateChunkBuffer (g\<lparr>DecryptWithHMACSHA256 := b\<rparr>) =
     (fst (AllocateChunkBuffer g), (snd (AllocateChunkBuffer g))\<lparr>DecryptWithHMACSHA256 := b\<rparr>)"
  by (simp add: AllocateChunkBuffer_def split: list.split)

lemma Release_flag:
  "ReleaseChunkBuffer (g\<lparr>DecryptWithHMACSHA256 := b\<rparr>) x =
     (ReleaseChunkBuffer g x)\<lparr>DecryptWithHMACSHA256 := b\<rparr>"
  by (simp add: ReleaseChunkBuffer_def)

lemma Decrypt_flag:
  "Decrypt L (g\<lparr>DecryptWithHMACSHA256 := b\<rparr>) chunk encryptionKey derivationKey =
     map_option (\<lambda>(err, c, g'). (err, c, g'\<lparr>DecryptWithHMACSHA256 := b\<rparr>))
       (Decrypt L g chunk encryptionKey derivationKey)"
proof (cases "buffer chunk")
  case None
  then show ?thesis
    by (simp add: Decrypt_def Allocate_flag split: prod.split)
next
  case (Some env)
  show ?thesis
  proof (cases "encryptionKey = []")
    case True
    with Some show ?thesis
      by (simp add: Decrypt_empty_unfold Allocate_flag Release_flag split: sum.split)
  next
    case False
    with Some show ?thesis
      by (simp add: Decrypt_nonempty_unfold Allocate_flag Release_flag Let_def
          split: sum.split option.split prod.split)
  qed
qed

lemma pool_ok_init: "0 < numCPU \<Longrightarrow> pool_ok (init numCPU env)"
  by (simp add: pool_ok_def init_def)

lemma pool_ok_Allocate: "pool_ok g \<Longrightarrow> pool_ok (snd (AllocateChunkBuffer g))"
  by (cases "chunkBufferPool g") (simp_all add: pool_ok_def AllocateChunkBuffer_def)

lemma pool_ok_Release: "pool_ok g \<Longrightarrow> pool_ok (ReleaseChunkBuffer g b)"
  by (simp add: pool_ok_def ReleaseChunkBuffer_def)

lemma pool_release_after_allocate:
  assumes "pool_ok g"
  shows "chunkBufferPool (ReleaseChunkBuffer (snd (AllocateChunkBuffer g)) b)
           = tl (chunkBufferPool g) @ [b]"
  using assms
  by (cases "chunkBufferPool g")
     (simp_all add: pool_ok_def AllocateChunkBuffer_def ReleaseChunkBuffer_def)

lemma Decrypt_error_state:
  assumes "encryptionKey \<noteq> []" and "buffer chunk = Some env"
    and "Decrypt L g chunk encryptionKey derivationKey = Some (Some err, chunk', g')"
  shows "chunk' = chunk\<lparr>buffer := Some []\<rparr> \<and>
         g' = ReleaseChunkBuffer (snd (AllocateChunkBuffer g)) env"
  using assms(3) unfolding Decrypt_nonempty_unfold [OF assms(1,2)] Let_def
  by (auto split: if_splits option.splits sum.splits prod.splits)

text \<open>
  Claim C9. When \<^verbatim>\<open>Decrypt\<close> is called with a non-empty key on a chunk holding an
  envelope and returns an error, whichever it is, the chunk is left with the
  fresh, empty buffer it got at entry, so \<^verbatim>\<open>GetLength()\<close> is 0, and the buffer
  with the envelope has been handed to \<^verbatim>\<open>ReleaseChunkBuffer\<close>. In a pool that
  holds no more than its capacity, which is positive, that buffer is then the
  newest one queued, and the pool stays within its capacity.
\<close>

theorem Decrypt_error_discards_envelope:
  assumes "encryptionKey \<noteq> []" and "buffer chunk = Some env"
    and "Decrypt L g chunk encryptionKey derivationKey = Some (Some err, chunk', g')"
  shows "buffer chunk' = Some [] \<and> GetLength chunk' = 0 \<and>
         g' = ReleaseChunkBuffer (snd (AllocateChunkBuffer g)) env \<and>
         (pool_ok g \<longrightarrow> chunkBufferPool g' = tl (chunkBufferPool g) @ [env] \<and> pool_ok g')"
  using Decrypt_error_state [OF assms] pool_release_after_allocate [of g env]
    pool_ok_Release [OF pool_ok_Allocate, of g env]
  by (simp add: GetLength_def)

text \<open>
  Claim C5. \<^verbatim>\<open>Decrypt\<close> with a non-empty key checks the envelope in this order: an
  envelope shorter than \<open>10 + 32 + 64\<close> bytes is refused as not enough encrypted
  data; otherwise one whose first 9 bytes are not \<^verbatim>\<open>duplicacy\<close> is refused as not
  encrypted; otherwise one whose byte 9 is not 0 is refused as an unsupported
  version, with that byte. In each case nothing is decrypted: no library is
  consulted and the chunk is left with an empty buffer.
\<close>

theorem Decrypt_header_checks:
  assumes "encryptionKey \<noteq> []" and "buffer chunk = Some env"
    and "length env < 10 + 32 + 64 \<or> take 9 env \<noteq> map of_char ''duplicacy'' \<or> env ! 9 \<noteq> 0"
  shows "Decrypt L g chunk encryptionKey derivationKey =
     Some (Some (if length env < 10 + 32 + 64 then NotEnoughData (length env)
                 else if take 9 env \<noteq> map of_char ''duplicacy'' then NotEncrypted
                 else UnsupportedVersion (env ! 9)),
           chunk\<lparr>buffer := Some []\<rparr>,
           ReleaseChunkBuffer (snd (AllocateChunkBuffer g)) env)"
proof -
  have magic: "take 9 ENCRYPTION_HEADER = map of_char ''duplicacy''"
    by (simp add: ENCRYPTION_HEADER_def)
  show ?thesis
    using assms(3) unfolding Decrypt_nonempty_unfold [OF assms(1,2)] Let_def magic
    by auto
qed

lemma threefishCTR_success:
  assumes "argon2_Hash L \<lparr>HashLength = 336, TimeCost = 4, MemoryCost = 32768, Parallelism = 2\<rparr> key salt
             = Inr raw"
    and "length raw = 336"
    and "threefish_NewCipher L (slice raw 128 144) (slice raw 0 128) = Inr E"
  shows "threefishCTR L key salt src enc =
           Some (Inr (XORKeyStream E (drop 208 raw) src,
                      skein_Sum L 64 (slice raw 144 208) (PERSONALIZATION L)
                        (ENCRYPTION_HEADER @ salt @
                           (if enc then XORKeyStream E (drop 208 raw) src else src))))"
  unfolding threefishCTR_unfold using assms by simp

lemma threefishCTR_result:
  assumes "threefishCTR L key salt src enc = Some (Inr (dst, mac))"
  obtains raw E where
    "argon2_Hash L \<lparr>HashLength = 336, TimeCost = 4, MemoryCost = 32768, Parallelism = 2\<rparr> key salt
       = Inr raw"
    and "length raw = 336"
    and "threefish_NewCipher L (slice raw 128 144) (slice raw 0 128) = Inr E"
    and "dst = XORKeyStream E (drop 208 raw) src"
    and "mac = skein_Sum L 64 (slice raw 144 208) (PERSONALIZATION L)
                 (ENCRYPTION_HEADER @ salt @ (if enc then dst else src))"
proof (cases "argon2_Hash L \<lparr>HashLength = 336, TimeCost = 4, MemoryCost = 32768, Parallelism = 2\<rparr> key salt")
  case (Inl err)
  with assms show ?thesis unfolding threefishCTR_unfold by simp
next
  case raw: (Inr raw)
  show ?thesis
  proof (cases "threefish_NewCipher L (slice raw 128 144) (slice raw 0 128)")
    case (Inl err)
    with assms raw show ?thesis unfolding threefishCTR_unfold by (simp split: if_splits)
  next
    case E: (Inr E)
    from assms raw E have len: "length raw = 336"
      unfolding threefishCTR_unfold by (simp split: if_splits)
    from assms raw E len
    have "dst = XORKeyStream E (drop 208 raw) src"
      and "mac = skein_Sum L 64 (slice raw 144 208) (PERSONALIZATION L)
                 (ENCRYPTION_HEADER @ salt @ (if enc then dst else src))"
      unfolding threefishCTR_unfold by auto
    with raw len E show ?thesis by (rule that)
  qed
qed

lemma header_prefix:
  assumes "take 10 env = ENCRYPTION_HEADER"
  shows "take 9 env = take 9 ENCRYPTION_HEADER" and "env ! 9 = 0"
proof -
  have "take 9 (take 10 env) = take 9 env" by simp
  with assms show "take 9 env = take 9 ENCRYPTION_HEADER" by simp
  have "take 10 env ! 9 = env ! 9" by simp
  with assms show "env ! 9 = 0" by (simp add: ENCRYPTION_HEADER_def)
qed

lemma Decrypt_MAC_check:
  assumes "encryptionKey \<noteq> []" and "buffer chunk = Some env"
    and "106 \<le> length env" and "take 10 env = ENCRYPTION_HEADER"
    and "argon2_Hash L \<lparr>HashLength = 336, TimeCost = 4, MemoryCost = 32768, Parallelism = 2\<rparr>
           (if derivationKey \<noteq> []
            then pbkdf2_Key_sha512 L encryptionKey derivationKey 100 128
            else encryptionKey)
           (slice env 10 42) = Inr raw"
    and "length raw = 336"
    and "threefish_NewCipher L (slice raw 128 144) (slice raw 0 128) = Inr E"
  shows "Decrypt L g chunk encryptionKey derivationKey =
     (if slice env 42 106 \<noteq>
           skein_Sum L 64 (slice raw 144 208) (PERSONALIZATION L)
             (take 10 env @ slice env 10 42 @ drop 106 env)
      then Some (Some MACFailure, chunk\<lparr>buffer := Some []\<rparr>,
                 ReleaseChunkBuffer (snd (AllocateChunkBuffer g)) env)
      else (case zstd_Decompress L (XORKeyStream E (drop 208 raw) (drop 106 env)) of
              Inl err \<Rightarrow> Some (Some err, chunk\<lparr>buffer := Some []\<rparr>,
                                ReleaseChunkBuffer (snd (AllocateChunkBuffer g)) env)
            | Inr decompressed \<Rightarrow>
                Some (None,
                      chunk\<lparr>buffer := Some decompressed,
                            hasher := Some \<lparr>hkey = HashKey (config chunk), written = decompressed\<rparr>,
                            chunk_hash := []\<rparr>,
                      ReleaseChunkBuffer (snd (AllocateChunkBuffer g)) env)))"
proof -
  note ctr = threefishCTR_success [OF assms(5,6,7), of "drop 106 env" False]
  show ?thesis
    unfolding Decrypt_nonempty_unfold [OF assms(1,2)] Let_def ctr
    using assms(3) header_prefix [OF assms(4)] assms(4)
    by simp
qed

section \<open>The envelope written by \<^verbatim>\<open>Encrypt\<close>\<close>

lemma Encrypt_returns:
  assumes "encryptionKey \<noteq> []" and "buffer chunk = Some plain" and "rnd = Inr r"
    and "zstd_CompressLevel L plain (CompressionLevel (config chunk)) = Inr compressed"
    and "argon2_Hash L \<lparr>HashLength = 336, TimeCost = 4, MemoryCost = 32768, Parallelism = 2\<rparr>
           (if derivationKey \<noteq> []
            then pbkdf2_Key_sha512 L encryptionKey derivationKey 100 128
            else encryptionKey)
           (map r [0..<32]) = Inr raw"
    and "length raw = 336"
    and "threefish_NewCipher L (slice raw 128 144) (slice raw 0 128) = Inr E"
  shows "Encrypt L rnd g chunk encryptionKey derivationKey =
     Some (None,
           chunk\<lparr>buffer := Some (ENCRYPTION_HEADER @ map r [0..<32] @
                     skein_Sum L 64 (slice raw 144 208) (PERSONALIZATION L)
                       (ENCRYPTION_HEADER @ map r [0..<32] @
                          XORKeyStream E (drop 208 raw) compressed) @
                     XORKeyStream E (drop 208 raw) compressed)\<rparr>,
           ReleaseChunkBuffer (snd (AllocateChunkBuffer g)) plain)"
proof -
  note ctr = threefishCTR_success [OF assms(5,6,7), of compressed True]
  show ?thesis
    unfolding Encrypt_nonempty_unfold [OF assms(1,2)] Let_def assms(3)
    using assms(4) ctr by simp
qed

lemma Encrypt_nonempty_success:
  assumes "encryptionKey \<noteq> []"
    and "Encrypt L rnd g chunk encryptionKey derivationKey = Some (None, chunk', g')"
  obtains r plain compressed raw E where
    "rnd = Inr r" and "buffer chunk = Some plain"
    and "zstd_CompressLevel L plain (CompressionLevel (config chunk)) = Inr compressed"
    and "argon2_Hash L \<lparr>HashLength = 336, TimeCost = 4, MemoryCost = 32768, Parallelism = 2\<rparr>
           (if derivationKey \<noteq> []
            then pbkdf2_Key_sha512 L encryptionKey derivationKey 100 128
            else encryptionKey)
           (map r [0..<32]) = Inr raw"
    and "length raw = 336"
    and "threefish_NewCipher L (slice raw 128 144) (slice raw 0 128) = Inr E"
    and "chunk' = chunk\<lparr>buffer := Some (ENCRYPTION_HEADER @ map r [0..<32] @
                     skein_Sum L 64 (slice raw 144 208) (PERSONALIZATION L)
                       (ENCRYPTION_HEADER @ map r [0..<32] @
                          XORKeyStream E (drop 208 raw) compressed) @
                     XORKeyStream E (drop 208 raw) compressed)\<rparr>"
    and "g' = ReleaseChunkBuffer (snd (AllocateChunkBuffer g)) plain"
proof -
  obtain plain where plain: "buffer chunk = Some plain"
  proof (cases "buffer chunk")
    case None
    obtain b g1 where a: "AllocateChunkBuffer g = (b, g1)"
      by (cases "AllocateChunkBuffer g") auto
    from assms None a have False
      by (auto simp: Encrypt_def Let_def split: sum.splits)
    then show ?thesis ..
  next
    case (Some p)
    then show ?thesis by (rule that)
  qed
  note enc = assms(2) [unfolded Encrypt_nonempty_unfold [OF assms(1) plain] Let_def]
  obtain r where r: "rnd = Inr r"
    using enc by (cases rnd) simp_all
  obtain compressed where z:
    "zstd_CompressLevel L plain (CompressionLevel (config chunk)) = Inr compressed"
    using enc r by (cases "zstd_CompressLevel L plain (CompressionLevel (config chunk))") simp_all
  let ?key = "if derivationKey \<noteq> []
            then pbkdf2_Key_sha512 L encryptionKey derivationKey 100 128
            else encryptionKey"
  obtain dst mac where ctr: "threefishCTR L ?key (map r [0..<32]) compressed True = Some (Inr (dst, mac))"
    using enc r z
    by (cases "threefishCTR L ?key (map r [0..<32]) compressed True")
       (auto split: sum.splits)
  from ctr obtain raw E where
    raw: "argon2_Hash L \<lparr>HashLength = 336, TimeCost = 4, MemoryCost = 32768, Parallelism = 2\<rparr> ?key
            (map r [0..<32]) = Inr raw"
    and len: "length raw = 336"
    and E: "threefish_NewCipher L (slice raw 128 144) (slice raw 0 128) = Inr E"
    by (rule threefishCTR_result)
  from Encrypt_returns [OF assms(1) plain r z raw len E, of g] assms(2)
  have "chunk' = chunk\<lparr>buffer := Some (ENCRYPTION_HEADER @ map r [0..<32] @
                     skein_Sum L 64 (slice raw 144 208) (PERSONALIZATION L)
                       (ENCRYPTION_HEADER @ map r [0..<32] @
                          XORKeyStream E (drop 208 raw) compressed) @
                     XORKeyStream E (drop 208 raw) compressed)\<rparr>"
    and "g' = ReleaseChunkBuffer (snd (AllocateChunkBuffer g)) plain"
    by simp_all
  with r plain z raw len E show ?thesis by (rule that)
qed

text \<open>
  Claim C2. When \<^verbatim>\<open>Encrypt\<close> succeeds with a non-empty key, the buffer of the chunk
  holds the 10 bytes \<^verbatim>\<open>duplicacy\<close> and \<open>0\<close>, then the 32 random bytes of the salt,
  then the 64 bytes of the Skein MAC, keyed with bytes 144 to 208 of the Argon2
  output and computed over header, salt and ciphertext, then the ciphertext, which
  is the Threefish counter-mode encryption of the zstd-compressed plaintext, with
  the cipher key, the tweak and the initial counter cut from the same Argon2
  output.
\<close>

theorem Encrypt_envelope_layout:
  assumes "encryptionKey \<noteq> []" and "skein_sized L"
    and "Encrypt L rnd g chunk encryptionKey derivationKey = Some (None, chunk', g')"
  shows "\<exists>r plain compressed raw E salt mac ciphertext.
      rnd = Inr r \<and> buffer chunk = Some plain \<and>
      salt = map r [0..<32] \<and> length salt = 32 \<and>
      zstd_CompressLevel L plain (CompressionLevel (config chunk)) = Inr compressed \<and>
      argon2_Hash L \<lparr>HashLength = 336, TimeCost = 4, MemoryCost = 32768, Parallelism = 2\<rparr>
        (if derivationKey \<noteq> []
         then pbkdf2_Key_sha512 L encryptionKey derivationKey 100 128
         else encryptionKey) salt = Inr raw \<and>
      length raw = 336 \<and>
      threefish_NewCipher L (slice raw 128 144) (slice raw 0 128) = Inr E \<and>
      ciphertext = XORKeyStream E (drop 208 raw) compressed \<and>
      mac = skein_Sum L 64 (slice raw 144 208) (PERSONALIZATION L)
              (ENCRYPTION_HEADER @ salt @ ciphertext) \<and>
      length mac = 64 \<and>
      ENCRYPTION_HEADER = map of_char ''duplicacy'' @ [0] \<and> length ENCRYPTION_HEADER = 10 \<and>
      buffer chunk' = Some (ENCRYPTION_HEADER @ salt @ mac @ ciphertext)"
proof -
  from assms(1,3) obtain r plain compressed raw E where
    "rnd = Inr r" and "buffer chunk = Some plain"
    and "zstd_CompressLevel L plain (CompressionLevel (config chunk)) = Inr compressed"
    and "argon2_Hash L \<lparr>HashLength = 336, TimeCost = 4, MemoryCost = 32768, Parallelism = 2\<rparr>
           (if derivationKey \<noteq> []
            then pbkdf2_Key_sha512 L encryptionKey derivationKey 100 128
            else encryptionKey)
           (map r [0..<32]) = Inr raw"
    and "length raw = 336"
    and "threefish_NewCipher L (slice raw 128 144) (slice raw 0 128) = Inr E"
    and "chunk' = chunk\<lparr>buffer := Some (ENCRYPTION_HEADER @ map r [0..<32] @
                     skein_Sum L 64 (slice raw 144 208) (PERSONALIZATION L)
                       (ENCRYPTION_HEADER @ map r [0..<32] @
                          XORKeyStream E (drop 208 raw) compressed) @
                     XORKeyStream E (drop 208 raw) compressed)\<rparr>"
    by (rule Encrypt_nonempty_success)
  moreover have "length (skein_Sum L 64 (slice raw 144 208) (PERSONALIZATION L)
                       (ENCRYPTION_HEADER @ map r [0..<32] @
                          XORKeyStream E (drop 208 raw) compressed)) = 64"
    using assms(2) by (simp add: skein_sized_def)
  moreover have "ENCRYPTION_HEADER = map of_char ''duplicacy'' @ [0]"
    and "length ENCRYPTION_HEADER = 10"
    by (simp_all add: ENCRYPTION_HEADER_def)
  ultimately show ?thesis by simp
qed

section \<open>Round trip\<close>

lemma envelope_parts:
  assumes "length h = 10" and "length salt = 32" and "length mac = 64"
  shows "take 10 (h @ salt @ mac @ ct) = h"
    and "slice (h @ salt @ mac @ ct) 10 42 = salt"
    and "slice (h @ salt @ mac @ ct) 42 106 = mac"
    and "drop 106 (h @ salt @ mac @ ct) = ct"
    and "106 \<le> length (h @ salt @ mac @ ct)"
  using assms by (simp_all add: slice_def)

lemma written_chunk:
  assumes "buffer c0 \<noteq> None"
  shows "snd (Write (Reset c0 True) P) =
           c0\<lparr>buffer := Some P,
              hasher := Some \<lparr>hkey = HashKey (config c0), written = P\<rparr>,
              chunk_hash := [], chunk_id := '''', chunk_size := 0\<rparr>"
  using assms
  by (auto simp: Write_def Reset_def Let_def NewKeyedHasher_def Hasher_Write_def)

lemma GetHash_fresh:
  assumes "hasher chunk = Some \<lparr>hkey = k, written = P\<rparr>" and "chunk_hash chunk = []"
  shows "GetHash chunk = Some (KeyedHash (config chunk) k P,
                               chunk\<lparr>chunk_hash := KeyedHash (config chunk) k P\<rparr>)"
  using assms by (simp add: GetHash_def Hasher_Sum_def Let_def)

lemma GetHash_keeps:
  assumes "GetHash chunk = Some (h, chunk')"
  shows "buffer chunk' = buffer chunk" and "hasher chunk' = hasher chunk"
    and "config chunk' = config chunk"
  using assms by (auto simp: GetHash_def Let_def split: if_splits option.splits)

lemma Decrypt_of_envelope:
  assumes lib: "threefish_block_sized L" "skein_sized L"
    and key: "encryptionKey \<noteq> []"
    and raw: "argon2_Hash L \<lparr>HashLength = 336, TimeCost = 4, MemoryCost = 32768, Parallelism = 2\<rparr>
           (if derivationKey \<noteq> []
            then pbkdf2_Key_sha512 L encryptionKey derivationKey 100 128
            else encryptionKey) salt = Inr raw"
    and len: "length raw = 336"
    and E: "threefish_NewCipher L (slice raw 128 144) (slice raw 0 128) = Inr E"
    and salt: "length salt = 32"
    and env: "buffer chunk = Some (ENCRYPTION_HEADER @ salt @
                skein_Sum L 64 (slice raw 144 208) (PERSONALIZATION L)
                  (ENCRYPTION_HEADER @ salt @ XORKeyStream E (drop 208 raw) compressed) @
                XORKeyStream E (drop 208 raw) compressed)"
    and z: "zstd_Decompress L compressed = Inr P"
  shows "Decrypt L g chunk encryptionKey derivationKey =
     Some (None,
           chunk\<lparr>buffer := Some P,
                 hasher := Some \<lparr>hkey = HashKey (config chunk), written = P\<rparr>,
                 chunk_hash := []\<rparr>,
           ReleaseChunkBuffer (snd (AllocateChunkBuffer g))
             (ENCRYPTION_HEADER @ salt @
                skein_Sum L 64 (slice raw 144 208) (PERSONALIZATION L)
                  (ENCRYPTION_HEADER @ salt @ XORKeyStream E (drop 208 raw) compressed) @
                XORKeyStream E (drop 208 raw) compressed))"
proof -
  let ?ct = "XORKeyStream E (drop 208 raw) compressed"
  let ?mac = "skein_Sum L 64 (slice raw 144 208) (PERSONALIZATION L) (ENCRYPTION_HEADER @ salt @ ?ct)"
  let ?env = "ENCRYPTION_HEADER @ salt @ ?mac @ ?ct"
  have hl: "length ENCRYPTION_HEADER = 10" by (simp add: ENCRYPTION_HEADER_def)
  have ml: "length ?mac = 64" using lib(2) by (simp add: skein_sized_def)
  note parts = envelope_parts [OF hl salt ml, of ?ct]
  have blk: "\<And>x. length x = BlockSize1024 \<Longrightarrow> length (E x) = BlockSize1024"
    using lib(1) E unfolding threefish_block_sized_def by blast
  have iv: "length (drop 208 raw) = BlockSize1024"
    using len by (simp add: BlockSize1024_def)
  have inv: "XORKeyStream E (drop 208 raw) ?ct = compressed"
    using blk iv by (rule XORKeyStream_involution)
  have raw': "argon2_Hash L \<lparr>HashLength = 336, TimeCost = 4, MemoryCost = 32768, Parallelism = 2\<rparr>
           (if derivationKey \<noteq> []
            then pbkdf2_Key_sha512 L encryptionKey derivationKey 100 128
            else encryptionKey) (slice ?env 10 42) = Inr raw"
    unfolding parts(2) by (rule raw)
  show ?thesis
    unfolding Decrypt_MAC_check [OF key env parts(5) parts(1) raw' len E] parts inv
    using z by simp
qed

text \<open>
  Claim C1. Write a plaintext \<open>P\<close> into a reset chunk that has a buffer and take
  its hash. If \<^verbatim>\<open>Encrypt\<close> then succeeds, with any keys and whatever the compression
  level of the configuration, \<^verbatim>\<open>Decrypt\<close> with the same keys succeeds, the buffer
  holds \<open>P\<close> again, and \<^verbatim>\<open>GetHash\<close> returns the hash taken before.
\<close>

theorem Encrypt_Decrypt_roundtrip:
  assumes "zstd_inverse L" and "threefish_block_sized L" and "skein_sized L"
    and "buffer c0 \<noteq> None"
    and "GetHash (snd (Write (Reset c0 True) P)) = Some (h0, chunk)"
    and "Encrypt L rnd g chunk encryptionKey derivationKey = Some (None, chunkE, gE)"
  shows "\<exists>chunkD gD chunkD'.
           Decrypt L gE chunkE encryptionKey derivationKey = Some (None, chunkD, gD) \<and>
           buffer chunkD = Some P \<and>
           GetHash chunkD = Some (h0, chunkD')"
proof -
  let ?w = "snd (Write (Reset c0 True) P)"
  note w = written_chunk [OF assms(4), of P]
  have h0: "h0 = KeyedHash (config c0) (HashKey (config c0)) P"
    using assms(5) GetHash_fresh [of ?w "HashKey (config c0)" P]
    by (simp add: w)
  have buf: "buffer chunk = Some P" and cfg: "config chunk = config c0"
    using GetHash_keeps [OF assms(5)] by (simp_all add: w)
  show ?thesis
  proof (cases "encryptionKey = []")
    case True
    from assms(6) obtain z where
      z: "zstd_CompressLevel L P (CompressionLevel (config chunk)) = Inr z"
      and cE: "chunkE = chunk\<lparr>buffer := Some z\<rparr>"
      unfolding True Encrypt_empty_unfold [OF buf]
      by (auto split: sum.splits)
    from assms(1) z have d: "zstd_Decompress L z = Inr P"
      unfolding zstd_inverse_def by blast
    have bE: "buffer chunkE = Some z" by (simp add: cE)
    show ?thesis
      unfolding True Decrypt_empty_unfold [OF bE]
      by (simp add: d cE cfg h0 GetHash_fresh)
  next
    case False
    from False assms(6) obtain r plain compressed raw E where
      "rnd = Inr r" and plain: "buffer chunk = Some plain"
      and z: "zstd_CompressLevel L plain (CompressionLevel (config chunk)) = Inr compressed"
      and raw: "argon2_Hash L \<lparr>HashLength = 336, TimeCost = 4, MemoryCost = 32768, Parallelism = 2\<rparr>
           (if derivationKey \<noteq> []
            then pbkdf2_Key_sha512 L encryptionKey derivationKey 100 128
            else encryptionKey)
           (map r [0..<32]) = Inr raw"
      and len: "length raw = 336"
      and E: "threefish_NewCipher L (slice raw 128 144) (slice raw 0 128) = Inr E"
      and cE: "chunkE = chunk\<lparr>buffer := Some (ENCRYPTION_HEADER @ map r [0..<32] @
                     skein_Sum L 64 (slice raw 144 208) (PERSONALIZATION L)
                       (ENCRYPTION_HEADER @ map r [0..<32] @
                          XORKeyStream E (drop 208 raw) compressed) @
                     XORKeyStream E (drop 208 raw) compressed)\<rparr>"
      by (rule Encrypt_nonempty_success)
    from plain buf have "plain = P" by simp
    with assms(1) z have d: "zstd_Decompress L compressed = Inr P"
      unfolding zstd_inverse_def by blast
    have salt: "length (map r [0..<32]) = 32" by simp
    have bE: "buffer chunkE = Some (ENCRYPTION_HEADER @ map r [0..<32] @
                     skein_Sum L 64 (slice raw 144 208) (PERSONALIZATION L)
                       (ENCRYPTION_HEADER @ map r [0..<32] @
                          XORKeyStream E (drop 208 raw) compressed) @
                     XORKeyStream E (drop 208 raw) compressed)"
      by (simp add: cE)
    show ?thesis
      unfolding Decrypt_of_envelope [OF assms(2,3) False raw len E salt bE d]
      by (simp add: cE cfg h0 GetHash_fresh)
  qed
qed

text \<open>
  Claim C7. With an empty key, \<^verbatim>\<open>Encrypt\<close> leaves in the buffer the zstd compression
  of the plaintext and nothing else (no header, no salt, no MAC), and \<^verbatim>\<open>Decrypt\<close>
  with an empty key decompresses the whole buffer back to the plaintext, installs
  a fresh keyed hasher fed with the plaintext and clears the stored hash.
\<close>

theorem unencrypted_parity:
  assumes "zstd_inverse L" and "buffer chunk = Some P"
    and "zstd_CompressLevel L P (CompressionLevel (config chunk)) = Inr z"
  shows "Encrypt L rnd g chunk [] derivationKey =
           Some (None, chunk\<lparr>buffer := Some z\<rparr>,
                 ReleaseChunkBuffer (snd (AllocateChunkBuffer g)) P) \<and>
         Decrypt L g' (chunk\<lparr>buffer := Some z\<rparr>) [] derivationKey' =
           Some (None,
                 chunk\<lparr>buffer := Some P,
                       hasher := Some (Hasher_Write
                                   (NewKeyedHasher (config chunk) (HashKey (config chunk))) P),
                       chunk_hash := []\<rparr>,
                 ReleaseChunkBuffer (snd (AllocateChunkBuffer g')) z)"
proof -
  from assms(1,3) have d: "zstd_Decompress L z = Inr P"
    unfolding zstd_inverse_def by blast
  have b: "buffer (chunk\<lparr>buffer := Some z\<rparr>) = Some z" by simp
  show ?thesis
    unfolding Encrypt_empty_unfold [OF assms(2)] Decrypt_empty_unfold [OF b]
    by (simp add: assms(3) d NewKeyedHasher_def Hasher_Write_def)
qed

text \<open>
  Claim C3, as the code has it. For a chunk whose hash has been computed:
  when no id is stored yet, \<^verbatim>\<open>GetID\<close> returns the zbase32 encoding of PBKDF2 with
  SHA-512 (password the id key of the configuration, salt the hash, 13 iterations,
  64 bytes) and stores it; when an id is stored, \<^verbatim>\<open>GetID\<close> returns the stored id
  and computes nothing; in both cases a second call returns the same string.
\<close>

theorem GetID_derives_or_returns_cached:
  assumes "chunk_hash chunk \<noteq> []"
  shows "(chunk_id chunk = '''' \<longrightarrow>
            GetID L chunk =
              Some (zbase32_EncodeToString L
                      (pbkdf2_Key_sha512 L (IDKey (config chunk)) (chunk_hash chunk) 13 64),
                    chunk\<lparr>chunk_id := zbase32_EncodeToString L
                      (pbkdf2_Key_sha512 L (IDKey (config chunk)) (chunk_hash chunk) 13 64)\<rparr>)) \<and>
         (chunk_id chunk \<noteq> '''' \<longrightarrow> GetID L chunk = Some (chunk_id chunk, chunk)) \<and>
         (\<exists>s chunk' chunk''. GetID L chunk = Some (s, chunk') \<and> GetID L chunk' = Some (s, chunk''))"
  using assms by (auto simp: GetID_def Let_def)

text \<open>
  Claim C4. With \<^verbatim>\<open>DUPLICACY_DECRYPT_WITH_HMACSHA256=1\<close> in the environment,
  \<^verbatim>\<open>init\<close> sets the flag \<^verbatim>\<open>DecryptWithHMACSHA256\<close>; \<^verbatim>\<open>Decrypt\<close> never reads it:
  with the flag set it returns what it returns with the flag cleared, the key
  being derived by PBKDF2 in both cases.
\<close>

theorem Decrypt_ignores_DecryptWithHMACSHA256:
  "DecryptWithHMACSHA256 (init numCPU [''DUPLICACY_DECRYPT_WITH_HMACSHA256'' \<mapsto> ''1'']) \<and>
   Decrypt L (g\<lparr>DecryptWithHMACSHA256 := True\<rparr>) chunk encryptionKey derivationKey =
     map_option (\<lambda>(err, c, g'). (err, c, g'\<lparr>DecryptWithHMACSHA256 := True\<rparr>))
       (Decrypt L (g\<lparr>DecryptWithHMACSHA256 := False\<rparr>) chunk encryptionKey derivationKey)"
proof -
  have "Decrypt L (g\<lparr>DecryptWithHMACSHA256 := False, DecryptWithHMACSHA256 := True\<rparr>) chunk encryptionKey derivationKey =
     map_option (\<lambda>(err, c, g'). (err, c, g'\<lparr>DecryptWithHMACSHA256 := True\<rparr>))
       (Decrypt L (g\<lparr>DecryptWithHMACSHA256 := False\<rparr>) chunk encryptionKey derivationKey)"
    by (rule Decrypt_flag)
  then show ?thesis by (simp add: init_def)
qed

section \<open>The properties at concrete inputs\<close>

lemma example_lib_zstd: "zstd_inverse example_lib"
  by (simp add: zstd_inverse_def example_lib_def)

lemma example_lib_threefish: "threefish_block_sized example_lib"
  by (auto simp: threefish_block_sized_def example_lib_def BlockSize1024_def)

lemma example_lib_skein: "skein_sized example_lib"
  by (auto simp: skein_sized_def example_lib_def)

text \<open>
  Claim C3 as stated fails on a chunk that kept an id from earlier content:
  \<^verbatim>\<open>Decrypt\<close> clears the stored hash and leaves the stored id. After the run
  \<open>stale_id_run\<close> the hash of the chunk is computed: it is the hash of the
  bytes 1, 2. \<^verbatim>\<open>GetID\<close> returns the id stored when the chunk held the byte 1
  only, derived from the hash of that content, and not the id derived from the
  hash the chunk has now.
\<close>

theorem GetID_stale_counterexample:
  "stale_id_run \<noteq> None \<and>
   chunk_hash (the stale_id_run) = [1, 1, 2] \<and>
   IDKey (config (the stale_id_run)) = [2] \<and>
   map_option fst (GetID example_lib (the stale_id_run)) =
     Some (zbase32_EncodeToString example_lib (pbkdf2_Key_sha512 example_lib [2] [1, 1] 13 64)) \<and>
   zbase32_EncodeToString example_lib (pbkdf2_Key_sha512 example_lib [2] [1, 1] 13 64) \<noteq>
     zbase32_EncodeToString example_lib (pbkdf2_Key_sha512 example_lib [2] [1, 1, 2] 13 64)"
  by code_simp

lemma stale_id_run_value:
  "map_option buffer stale_id_run = Some (Some [1, 2]) \<and>
   map_option hasher stale_id_run = Some (Some \<lparr>hkey = [1], written = [1, 2]\<rparr>)"
  by code_simp

lemma example_Encrypt:
  "\<exists>chunk' g'. Encrypt example_lib example_rnd g chunk [0x41] [] = Some (None, chunk', g')"
  if "buffer chunk = Some plain" for g chunk plain
proof -
  let ?salt = "map (\<lambda>i. of_nat i :: byte) [0..<32]"
  let ?raw = "take 336 ([0x41] @ ?salt @ replicate 336 (0::byte))"
  have key: "[0x41 :: byte] \<noteq> []" by simp
  have rnd: "example_rnd = Inr (\<lambda>i. of_nat i)" by (simp add: example_rnd_def)
  have z: "zstd_CompressLevel example_lib plain (CompressionLevel (config chunk)) = Inr (0x28 # plain)"
    by (simp add: example_lib_def)
  have raw: "argon2_Hash example_lib
               \<lparr>HashLength = 336, TimeCost = 4, MemoryCost = 32768, Parallelism = 2\<rparr>
               (if ([]::bytes) \<noteq> [] then pbkdf2_Key_sha512 example_lib [0x41] [] 100 128 else [0x41])
               ?salt = Inr ?raw"
    by (simp add: example_lib_def)
  have len: "length ?raw = 336" by simp
  have E: "threefish_NewCipher example_lib (slice ?raw 128 144) (slice ?raw 0 128)
             = Inr (map (\<lambda>b. b + 1))"
    by (simp add: example_lib_def)
  from Encrypt_returns [OF key that rnd z raw len E, of g] show ?thesis by blast
qed

theorem Encrypt_Decrypt_roundtrip_witness:
  "\<exists>h0 chunk chunkE gE chunkD gD chunkD'.
     GetHash (snd (Write (Reset example_chunk True) [7, 8])) = Some (h0, chunk) \<and>
     Encrypt example_lib example_rnd example_globals chunk [0x41] [] = Some (None, chunkE, gE) \<and>
     Decrypt example_lib gE chunkE [0x41] [] = Some (None, chunkD, gD) \<and>
     buffer chunkD = Some [7, 8] \<and>
     GetHash chunkD = Some (h0, chunkD')"
proof -
  have b: "buffer example_chunk \<noteq> None" by (simp add: example_chunk_def)
  obtain h0 chunk where h: "GetHash (snd (Write (Reset example_chunk True) [7, 8])) = Some (h0, chunk)"
    using GetHash_fresh [of "snd (Write (Reset example_chunk True) [7, 8])"
                            "HashKey (config example_chunk)" "[7, 8]"]
    by (simp add: written_chunk [OF b])
  have "buffer chunk = Some [7, 8]"
    using GetHash_keeps(1) [OF h] by (simp add: written_chunk [OF b])
  then obtain chunkE gE where
    e: "Encrypt example_lib example_rnd example_globals chunk [0x41] [] = Some (None, chunkE, gE)"
    using example_Encrypt by blast
  from Encrypt_Decrypt_roundtrip [OF example_lib_zstd example_lib_threefish example_lib_skein b h e]
    h e
  show ?thesis by blast
qed

theorem Encrypt_envelope_layout_witness:
  "\<exists>chunk' g' salt mac ciphertext.
     Encrypt example_lib example_rnd example_globals example_chunk [0x41] [] = Some (None, chunk', g') \<and>
     length salt = 32 \<and> length mac = 64 \<and>
     buffer chunk' = Some (ENCRYPTION_HEADER @ salt @ mac @ ciphertext)"
proof -
  have key: "[0x41 :: byte] \<noteq> []" by simp
  have "buffer example_chunk = Some [1, 2, 3]" by (simp add: example_chunk_def)
  then obtain chunk' g' where
    e: "Encrypt example_lib example_rnd example_globals example_chunk [0x41] [] = Some (None, chunk', g')"
    using example_Encrypt by blast
  from Encrypt_envelope_layout [OF key example_lib_skein e] e
  show ?thesis by blast
qed

theorem unencrypted_parity_witness:
  "Encrypt example_lib example_rnd example_globals example_chunk [] [] =
     Some (None, example_chunk\<lparr>buffer := Some [0x28, 1, 2, 3]\<rparr>,
           ReleaseChunkBuffer (snd (AllocateChunkBuffer example_globals)) [1, 2, 3]) \<and>
   Decrypt example_lib example_globals (example_chunk\<lparr>buffer := Some [0x28, 1, 2, 3]\<rparr>) [] [] =
     Some (None,
           example_chunk\<lparr>buffer := Some [1, 2, 3],
                         hasher := Some (Hasher_Write
                                     (NewKeyedHasher (config example_chunk) (HashKey (config example_chunk)))
                                     [1, 2, 3]),
                         chunk_hash := []\<rparr>,
           ReleaseChunkBuffer (snd (AllocateChunkBuffer example_globals)) [0x28, 1, 2, 3])"
proof -
  have b: "buffer example_chunk = Some [1, 2, 3]" by (simp add: example_chunk_def)
  have z: "zstd_CompressLevel example_lib [1, 2, 3] (CompressionLevel (config example_chunk))
             = Inr [0x28, 1, 2, 3]"
    by (simp add: example_lib_def)
  show ?thesis by (rule unencrypted_parity [OF example_lib_zstd b z])
qed

theorem GetID_derives_or_returns_cached_witness:
  "GetID example_lib example_chunk =
     Some (zbase32_EncodeToString example_lib (pbkdf2_Key_sha512 example_lib [2] [9] 13 64),
           example_chunk\<lparr>chunk_id := zbase32_EncodeToString example_lib
                                          (pbkdf2_Key_sha512 example_lib [2] [9] 13 64)\<rparr>) \<and>
   GetID example_lib (example_chunk\<lparr>chunk_id := ''kept''\<rparr>) =
     Some (''kept'', example_chunk\<lparr>chunk_id := ''kept''\<rparr>)"
proof -
  have h: "chunk_hash example_chunk \<noteq> []" by (simp add: example_chunk_def)
  have i: "chunk_id example_chunk = ''''" by (simp add: example_chunk_def)
  have c: "IDKey (config example_chunk) = [2]" "chunk_hash example_chunk = [9]"
    by (simp_all add: example_chunk_def example_config_def)
  have h': "chunk_hash (example_chunk\<lparr>chunk_id := ''kept''\<rparr>) \<noteq> []"
    by (simp add: example_chunk_def)
  have i': "chunk_id (example_chunk\<lparr>chunk_id := ''kept''\<rparr>) \<noteq> ''''" by simp
  from GetID_derives_or_returns_cached [OF h, of example_lib] i
    GetID_derives_or_returns_cached [OF h', of example_lib] i'
  show ?thesis by (simp add: c)
qed

theorem Decrypt_header_checks_witness:
  "Decrypt example_lib example_globals example_chunk [0x41] [] =
     Some (Some (NotEnoughData 3), example_chunk\<lparr>buffer := Some []\<rparr>,
           ReleaseChunkBuffer (snd (AllocateChunkBuffer example_globals)) [1, 2, 3]) \<and>
   Decrypt example_lib example_globals (example_chunk\<lparr>buffer := Some envelope_bad_magic\<rparr>) [0x41] [] =
     Some (Some NotEncrypted, example_chunk\<lparr>buffer := Some []\<rparr>,
           ReleaseChunkBuffer (snd (AllocateChunkBuffer example_globals)) envelope_bad_magic) \<and>
   Decrypt example_lib example_globals (example_chunk\<lparr>buffer := Some envelope_bad_version\<rparr>) [0x41] [] =
     Some (Some (UnsupportedVersion 1), example_chunk\<lparr>buffer := Some []\<rparr>,
           ReleaseChunkBuffer (snd (AllocateChunkBuffer example_globals)) envelope_bad_version)"
proof -
  have key: "[0x41 :: byte] \<noteq> []" by simp
  have b1: "buffer example_chunk = Some [1, 2, 3]" by (simp add: example_chunk_def)
  have s1: "length [1, 2, 3 :: byte] < 10 + 32 + 64" by simp
  have b2: "buffer (example_chunk\<lparr>buffer := Some envelope_bad_magic\<rparr>) = Some envelope_bad_magic"
    by simp
  have l2: "length envelope_bad_magic = 106" by (simp add: envelope_bad_magic_def)
  have m2: "take 9 envelope_bad_magic \<noteq> map of_char ''duplicacy''" by code_simp
  have b3: "buffer (example_chunk\<lparr>buffer := Some envelope_bad_version\<rparr>) = Some envelope_bad_version"
    by simp
  have l3: "length envelope_bad_version = 106" by (simp add: envelope_bad_version_def)
  have m3: "take 9 envelope_bad_version = map of_char ''duplicacy''"
    by (simp add: envelope_bad_version_def)
  have v3: "envelope_bad_version ! 9 = 1" by (simp add: envelope_bad_version_def)
  have "Decrypt example_lib example_globals example_chunk [0x41] [] =
     Some (Some (NotEnoughData 3), example_chunk\<lparr>buffer := Some []\<rparr>,
           ReleaseChunkBuffer (snd (AllocateChunkBuffer example_globals)) [1, 2, 3])"
    using Decrypt_header_checks [OF key b1, of example_lib example_globals "[]"] s1 by simp
  moreover
  have "Decrypt example_lib example_globals (example_chunk\<lparr>buffer := Some envelope_bad_magic\<rparr>) [0x41] [] =
     Some (Some NotEncrypted, example_chunk\<lparr>buffer := Some []\<rparr>,
           ReleaseChunkBuffer (snd (AllocateChunkBuffer example_globals)) envelope_bad_magic)"
    using Decrypt_header_checks [OF key b2, of example_lib example_globals "[]"] l2 m2 by simp
  moreover
  have "Decrypt example_lib example_globals (example_chunk\<lparr>buffer := Some envelope_bad_version\<rparr>) [0x41] [] =
     Some (Some (UnsupportedVersion 1), example_chunk\<lparr>buffer := Some []\<rparr>,
           ReleaseChunkBuffer (snd (AllocateChunkBuffer example_globals)) envelope_bad_version)"
    using Decrypt_header_checks [OF key b3, of example_lib example_globals "[]"] l3 m3 v3 by simp
  ultimately show ?thesis by blast
qed

theorem Decrypt_error_discards_envelope_witness:
  "\<exists>err chunk' g'.
     Decrypt example_lib example_globals example_chunk [0x41] [] = Some (Some err, chunk', g') \<and>
     buffer chunk' = Some [] \<and> GetLength chunk' = 0 \<and>
     chunkBufferPool g' = [[1, 2, 3]]"
proof -
  have key: "[0x41 :: byte] \<noteq> []" by simp
  have b: "buffer example_chunk = Some [1, 2, 3]" by (simp add: example_chunk_def)
  have d: "Decrypt example_lib example_globals example_chunk [0x41] [] =
     Some (Some (NotEnoughData 3), example_chunk\<lparr>buffer := Some []\<rparr>,
           ReleaseChunkBuffer (snd (AllocateChunkBuffer example_globals)) [1, 2, 3])"
    unfolding Decrypt_nonempty_unfold [OF key b] by simp
  have pool: "pool_ok example_globals"
    unfolding example_globals_def by (rule pool_ok_init) simp
  have tl: "tl (chunkBufferPool example_globals) = []"
    by (simp add: example_globals_def init_def)
  from Decrypt_error_discards_envelope [OF key b d] pool tl d
  show ?thesis by simp
qed

end
